theory Spec2Isabelle
  imports Complex_Main
begin

section \<open>Python values used by the improvement loop\<close>

text \<open>
  The scripts are Python. Exceptions are values of \<open>py_error\<close>; a function that can raise
  returns \<open>py_error + 'a\<close>. Python's unbounded integers are \<open>int\<close>. Python floats are
  idealised as exact rationals (\<open>rat\<close>): the model does not account for binary rounding
  of a quotient, only for the explicit \<open>round(x, 2)\<close> calls of the source.
\<close>

datatype py_error = AttributeError | TypeError | KeyError | IOError | ZeroDivisionError

text \<open>A dict with string keys, in insertion order; \<open>d.get(k, default)\<close>.\<close>

type_synonym 'v dict = "(string \<times> 'v) list"

definition dict_get :: "'v dict \<Rightarrow> string \<Rightarrow> 'v \<Rightarrow> 'v" where
  "dict_get d k dflt = (case map_of d k of None \<Rightarrow> dflt | Some v \<Rightarrow> v)"

text \<open>Sequencing of calls that may raise: the first exception ends the computation.\<close>

definition bind_err :: "'e + 'a \<Rightarrow> ('a \<Rightarrow> 'e + 'b) \<Rightarrow> 'e + 'b" where
  "bind_err m f = (case m of Inl e \<Rightarrow> Inl e | Inr v \<Rightarrow> f v)"

text \<open>\<open>a / float(b)\<close>: raises ZeroDivisionError when \<open>b\<close> is zero.\<close>

definition true_div :: "rat \<Rightarrow> int \<Rightarrow> py_error + rat" where
  "true_div a b = (if b = 0 then Inl ZeroDivisionError else Inr (a / of_int b))"

text \<open>\<open>round(x, 2)\<close>, ties to the even neighbour.\<close>

definition py_round2 :: "rat \<Rightarrow> rat" where
  "py_round2 x =
     (let y = x * 100; f = \<lfloor>y\<rfloor>; d = y - of_int f
      in of_int (if d < 1 / 2 then f
                 else if 1 / 2 < d then f + 1
                 else if even f then f else f + 1) / 100)"

text \<open>JSON documents, as \<open>json.dump\<close> writes and \<open>json.load\<close> reads them.\<close>

datatype json =
    JNull
  | JBool bool
  | JInt int
  | JNum rat
  | JStr string
  | JArr "json list"
  | JObj "(string \<times> json) list"

section \<open>Metrics snapshots, iteration records, run state\<close>

text \<open>
  A metrics dict as \<open>parse_aggregation_report\<close> builds it: counter name to integer.
  Every reader uses \<open>.get(key, default)\<close>, so a missing key is allowed.
\<close>

type_synonym metrics = "int dict"

text \<open>
  \<open>m.get('title_failures', 0) + m.get('url_errors', 0) + m.get('model_errors', 0)\<close>,
  the expression every improvement computation of the source starts with.
\<close>

definition error_sum :: "metrics \<Rightarrow> int" where
  "error_sum m =
     dict_get m ''title_failures'' 0 + dict_get m ''url_errors'' 0 + dict_get m ''model_errors'' 0"

text \<open>
  One entry of \<open>iteration_history\<close> (the dict built by \<open>record_iteration\<close>).
  \<open>metrics_snapshot\<close> is the value of \<open>state['current_metrics']\<close> at recording time,
  which is \<open>None\<close> until the first aggregation has run.
\<close>

record iteration_record =
  r_iteration :: int
  r_phase :: string
  r_timestamp :: string
  r_results :: json
  r_metrics_snapshot :: "metrics option"

record run_state =
  iteration :: int
  max_iterations :: int
  baseline_metrics :: "metrics option"
  current_metrics :: "metrics option"
  iteration_history :: "iteration_record list"
  fixes_attempted :: "string list"
  fixes_successful :: "string list"
  fixes_failed :: "string list"
  exit_condition :: "string option"
  start_time :: string

text \<open>The state \<open>LoopCoordinator.__init__\<close> builds when no state file is given.\<close>

definition initial_state :: "string \<Rightarrow> run_state" where
  "initial_state now =
     \<lparr> iteration = 0, max_iterations = 10, baseline_metrics = None, current_metrics = None,
       iteration_history = [], fixes_attempted = [], fixes_successful = [],
       fixes_failed = [], exit_condition = None, start_time = now \<rparr>"

definition record_iteration :: "run_state \<Rightarrow> string \<Rightarrow> json \<Rightarrow> string \<Rightarrow> run_state" where
  "record_iteration st ph res now =
     st\<lparr> iteration_history := iteration_history st @
          [\<lparr> r_iteration = iteration st, r_phase = ph, r_timestamp = now,
             r_results = res, r_metrics_snapshot = current_metrics st \<rparr>] \<rparr>"

section \<open>Progress tracking (loop_coordinator.py)\<close>

text \<open>
  \<open>record.get('metrics_snapshot', {})\<close> followed by \<open>.get(...)\<close> on the result: the key is
  always present in a record, so a \<open>None\<close> snapshot raises AttributeError at the first
  \<open>.get\<close>.
\<close>

definition snapshot_of :: "iteration_record \<Rightarrow> py_error + metrics" where
  "snapshot_of r = (case r_metrics_snapshot r of None \<Rightarrow> Inl AttributeError | Some m \<Rightarrow> Inr m)"

text \<open>
  \<open>((b - c) / float(b)) * 100 if b > 0 else 0\<close>, the error reduction of
  \<open>calculate_progress\<close>, \<open>calculate_improvement\<close>, \<open>calculate_overall_improvement\<close>
  and \<open>detect_plateau\<close>.
\<close>

definition error_reduction_pct :: "int \<Rightarrow> int \<Rightarrow> py_error + rat" where
  "error_reduction_pct b c =
     (if b > 0 then bind_err (true_div (of_int (b - c)) b) (\<lambda>q. Inr (q * 100))
      else Inr 0)"

text \<open>\<open>((s - e) / float(s)) * 100 if s > 0 else 0\<close>.\<close>

definition success_rate_pct :: "int \<Rightarrow> int \<Rightarrow> py_error + rat" where
  "success_rate_pct s e =
     (if s > 0 then bind_err (true_div (of_int (s - e)) s) (\<lambda>q. Inr (q * 100))
      else Inr 0)"

text \<open>\<open>record['phase'] == 'aggregation'\<close>.\<close>

definition is_aggregation :: "iteration_record \<Rightarrow> bool" where
  "is_aggregation r = (r_phase r = ''aggregation'')"

text \<open>The scan of \<open>calculate_progress\<close> for the first and the latest aggregation record.\<close>

fun agg_scan ::
  "iteration_record list \<Rightarrow> iteration_record option \<Rightarrow> iteration_record option
     \<Rightarrow> iteration_record option \<times> iteration_record option" where
  "agg_scan [] first_agg latest_agg = (first_agg, latest_agg)"
| "agg_scan (r # rs) first_agg latest_agg =
     (if is_aggregation r then
        agg_scan rs (case first_agg of None \<Rightarrow> Some r | Some f \<Rightarrow> Some f) (Some r)
      else agg_scan rs first_agg latest_agg)"

record progress =
  total_error_reduction :: rat
  success_rate_improvement :: rat
  iterations :: nat
  p_fixes_successful :: nat
  p_fixes_failed :: nat
  baseline_errors :: int
  current_errors :: int

definition calculate_progress :: "run_state \<Rightarrow> py_error + progress option" where
  "calculate_progress st =
     (if length (iteration_history st) < 2 then Inr None
      else
        (case agg_scan (iteration_history st) None None of
           (Some first_agg, Some latest_agg) \<Rightarrow>
             bind_err (snapshot_of first_agg) (\<lambda>baseline.
             bind_err (snapshot_of latest_agg) (\<lambda>current.
             let b_errors = error_sum baseline; c_errors = error_sum current in
             bind_err (error_reduction_pct b_errors c_errors) (\<lambda>error_reduction.
             let b_searches = dict_get baseline ''total_search_ops'' 1;
                 c_searches = dict_get current ''total_search_ops'' 1 in
             bind_err (success_rate_pct b_searches b_errors) (\<lambda>b_rate.
             bind_err (success_rate_pct c_searches c_errors) (\<lambda>c_rate.
             Inr (Some
               \<lparr> total_error_reduction = py_round2 error_reduction,
                 success_rate_improvement = py_round2 (c_rate - b_rate),
                 iterations = length (filter is_aggregation (iteration_history st)),
                 p_fixes_successful = length (fixes_successful st),
                 p_fixes_failed = length (fixes_failed st),
                 baseline_errors = b_errors,
                 current_errors = c_errors \<rparr>))))))
         | _ \<Rightarrow> Inr None))"

text \<open>
  The loop of \<open>detect_plateau\<close> over \<open>range(len(recent_iterations) - 1)\<close>: one improvement
  per adjacent pair whose earlier error sum is positive.
\<close>

fun improvements_of :: "iteration_record list \<Rightarrow> py_error + rat list" where
  "improvements_of (previous_r # current_r # rest) =
     bind_err (snapshot_of current_r) (\<lambda>current.
     bind_err (snapshot_of previous_r) (\<lambda>previous.
     let prev_errors = error_sum previous; curr_errors = error_sum current in
     if prev_errors > 0 then
       bind_err (true_div (of_int (prev_errors - curr_errors)) prev_errors) (\<lambda>q.
       bind_err (improvements_of (current_r # rest)) (\<lambda>imps.
       Inr ((q * 100) # imps)))
     else improvements_of (current_r # rest)))"
| "improvements_of _ = Inr []"

text \<open>\<open>xs[-2:]\<close>.\<close>

definition last_two :: "'a list \<Rightarrow> 'a list" where
  "last_two xs = drop (length xs - 2) xs"

definition detect_plateau :: "run_state \<Rightarrow> py_error + bool" where
  "detect_plateau st =
     (if length (iteration_history st) < 3 then Inr False
      else
        let agg_results = filter is_aggregation (iteration_history st) in
        if length agg_results < 2 then Inr False
        else
          bind_err (improvements_of (last_two agg_results)) (\<lambda>improvements.
          if length improvements \<ge> 2 then Inr (list_all (\<lambda>imp. imp < 5) improvements)
          else Inr False))"

definition detect_regression :: "progress option \<Rightarrow> bool" where
  "detect_regression p = (case p of None \<Rightarrow> False | Some pr \<Rightarrow> total_error_reduction pr < - 5)"

text \<open>\<open>progress and progress.get('total_error_reduction', 0) >= t\<close>.\<close>

definition reduction_at_least :: "progress option \<Rightarrow> rat \<Rightarrow> bool" where
  "reduction_at_least p t = (case p of None \<Rightarrow> False | Some pr \<Rightarrow> total_error_reduction pr \<ge> t)"

definition has_more_fixes :: "run_state \<Rightarrow> bool" where
  "has_more_fixes st = (iteration st < max_iterations st)"

section \<open>Exit policy\<close>

text \<open>
  \<open>should_exit\<close> returns the pair \<open>(should_exit, reason)\<close> and, when it exits, stores the
  exit condition in the state; the model returns the updated state with the pair.
\<close>

definition should_exit :: "run_state \<Rightarrow> py_error + (run_state \<times> bool \<times> string option)" where
  "should_exit st =
     bind_err (calculate_progress st) (\<lambda>prog.
     if iteration st \<ge> max_iterations st then
       Inr (st\<lparr>exit_condition := Some ''max_iterations_reached''\<rparr>, True,
            Some ''Maximum iterations reached'')
     else if \<not> has_more_fixes st then
       Inr (st\<lparr>exit_condition := Some ''all_fixes_attempted''\<rparr>, True,
            Some ''All identified fixes have been attempted'')
     else
       bind_err (detect_plateau st) (\<lambda>plateau.
       if plateau then
         Inr (st\<lparr>exit_condition := Some ''plateau_detected''\<rparr>, True,
              Some ''Progress has plateaued - no significant improvement in last 2 iterations'')
       else if reduction_at_least prog 90 then
         Inr (st\<lparr>exit_condition := Some ''success''\<rparr>, True,
              Some ''Target improvement achieved (90%+ error reduction)'')
       else if detect_regression prog then
         Inr (st\<lparr>exit_condition := Some ''regression_detected''\<rparr>, True,
              Some ''System performance has regressed - stopping'')
       else Inr (st, False, None)))"

section \<open>Improvement against the baseline (loop_coordinator.py)\<close>

record improvement =
  error_reduction :: rat
  i_success_rate_improvement :: rat

definition calculate_improvement :: "metrics \<Rightarrow> metrics \<Rightarrow> py_error + improvement" where
  "calculate_improvement baseline current =
     (let b_errors = error_sum baseline; c_errors = error_sum current in
      bind_err (error_reduction_pct b_errors c_errors) (\<lambda>reduction.
      let b_searches = dict_get baseline ''total_search_ops'' 1;
          c_searches = dict_get current ''total_search_ops'' 1 in
      bind_err (success_rate_pct b_searches b_errors) (\<lambda>b_success.
      bind_err (success_rate_pct c_searches c_errors) (\<lambda>c_success.
      Inr \<lparr> error_reduction = py_round2 reduction,
            i_success_rate_improvement = py_round2 (c_success - b_success) \<rparr>))))"

section \<open>Implementation and testing phases\<close>

text \<open>A fix proposed by the diagnostic report (\<open>parse_diagnostic_report\<close>).\<close>

record fix_candidate =
  fix_name :: string
  fix_priority :: string
  fix_expected_improvement :: string

text \<open>
  The collaborators are scripts run as subprocesses. What the coordinator sees of one is
  whether the script file exists and, if so, its return code.
\<close>

datatype script_outcome = ScriptMissing | ScriptRan int

text \<open>\<open>os.path.exists(script)\<close> and \<open>result.returncode != 0\<close>.\<close>

definition script_failed :: "script_outcome \<Rightarrow> bool" where
  "script_failed out = (case out of ScriptMissing \<Rightarrow> False | ScriptRan rc \<Rightarrow> rc \<noteq> 0)"

text \<open>The high-priority fixes not yet in \<open>fixes_attempted\<close>, in report order.\<close>

definition pending_fixes :: "run_state \<Rightarrow> fix_candidate list \<Rightarrow> fix_candidate list" where
  "pending_fixes st fixes =
     filter (\<lambda>f. fix_priority f = ''HIGH'' \<and> fix_name f \<notin> set (fixes_attempted st)) fixes"

text \<open>The result dict of \<open>execute_implementation\<close>, by its \<open>status\<close>.\<close>

datatype impl_result = NoFixes | ImplFailed string | ImplSuccess string fix_candidate

definition execute_implementation ::
  "run_state \<Rightarrow> fix_candidate list \<Rightarrow> script_outcome \<Rightarrow> run_state \<times> impl_result" where
  "execute_implementation st fixes impl_script =
     (case pending_fixes st fixes of
        [] \<Rightarrow> (st, NoFixes)
      | fix_to_implement # _ \<Rightarrow>
          if script_failed impl_script then
            (st\<lparr>fixes_failed := fixes_failed st @ [fix_name fix_to_implement]\<rparr>,
             ImplFailed (fix_name fix_to_implement))
          else
            (st\<lparr>fixes_attempted := fixes_attempted st @ [fix_name fix_to_implement]\<rparr>,
             ImplSuccess (fix_name fix_to_implement) fix_to_implement))"

text \<open>
  What \<open>execute_testing\<close> sees of its three scripts, and the decision that
  \<open>parse_test_report\<close> reads from the report the comparison script wrote
  (\<open>UNKNOWN\<close> when the report has none).
\<close>

record test_env =
  test_script :: script_outcome
  agg_script :: script_outcome
  compare_script :: script_outcome
  report_decision :: string

text \<open>
  \<open>execute_testing\<close> returns \<open>None\<close> when a script fails. When the comparison script is
  missing it writes a placeholder report whose decision is \<open>KEEP\<close>. The model returns the
  decision of the result dict.
\<close>

definition execute_testing ::
  "run_state \<Rightarrow> string \<Rightarrow> test_env \<Rightarrow> run_state \<times> string option" where
  "execute_testing st name env =
     (if script_failed (test_script env) then (st, None)
      else if script_failed (agg_script env) then (st, None)
      else if script_failed (compare_script env) then (st, None)
      else
        let decision =
              (if compare_script env = ScriptMissing then ''KEEP'' else report_decision env) in
        if decision = ''KEEP'' then
          (st\<lparr>fixes_successful := fixes_successful st @ [name]\<rparr>, Some decision)
        else if decision = ''ROLLBACK'' then
          (st\<lparr>fixes_failed := fixes_failed st @ [name]\<rparr>, Some decision)
        else (st, Some decision))"

text \<open>
  Phases 3 and 4 of one pass of the loop in \<open>main\<close>: the implementation, and the testing
  unless the implementation reported \<open>no_fixes\<close> or \<open>failed\<close>. The calls of
  \<open>record_iteration\<close> and \<open>should_exit\<close> between them write the history and the
  exit condition only and are left out here.
\<close>

definition implement_and_test ::
  "run_state \<Rightarrow> fix_candidate list \<times> script_outcome \<times> test_env \<Rightarrow> run_state" where
  "implement_and_test st pass =
     (case pass of (fixes, impl_script, env) \<Rightarrow>
        (case execute_implementation st fixes impl_script of
           (st1, NoFixes) \<Rightarrow> st1
         | (st1, ImplFailed name) \<Rightarrow> st1
         | (st1, ImplSuccess name details) \<Rightarrow> fst (execute_testing st1 name env)))"

definition run_cycles ::
  "run_state \<Rightarrow> (fix_candidate list \<times> script_outcome \<times> test_env) list \<Rightarrow> run_state" where
  "run_cycles st passes = foldl implement_and_test st passes"

section \<open>Saving and loading the state\<close>

text \<open>
  The state dict as the JSON document \<open>json.dump\<close> writes for it. The file system maps a
  path to the document stored there; writing a document and reading it back with
  \<open>json.load\<close> gives the same document.
\<close>

definition metrics_doc :: "metrics option \<Rightarrow> json" where
  "metrics_doc m = (case m of None \<Rightarrow> JNull | Some d \<Rightarrow> JObj (map (\<lambda>(k, v). (k, JInt v)) d))"

definition record_doc :: "iteration_record \<Rightarrow> json" where
  "record_doc r =
     JObj [(''iteration'', JInt (r_iteration r)), (''phase'', JStr (r_phase r)),
           (''timestamp'', JStr (r_timestamp r)), (''results'', r_results r),
           (''metrics_snapshot'', metrics_doc (r_metrics_snapshot r))]"

definition state_doc :: "run_state \<Rightarrow> json" where
  "state_doc st =
     JObj [(''iteration'', JInt (iteration st)),
           (''max_iterations'', JInt (max_iterations st)),
           (''baseline_metrics'', metrics_doc (baseline_metrics st)),
           (''current_metrics'', metrics_doc (current_metrics st)),
           (''iteration_history'', JArr (map record_doc (iteration_history st))),
           (''fixes_attempted'', JArr (map JStr (fixes_attempted st))),
           (''fixes_successful'', JArr (map JStr (fixes_successful st))),
           (''fixes_failed'', JArr (map JStr (fixes_failed st))),
           (''exit_condition'', (case exit_condition st of None \<Rightarrow> JNull | Some c \<Rightarrow> JStr c)),
           (''start_time'', JStr (start_time st))]"

type_synonym files = "string \<rightharpoonup> json"

text \<open>\<open>d[key]\<close> on a loaded document: KeyError when the key is missing.\<close>

definition json_item :: "json \<Rightarrow> string \<Rightarrow> py_error + json" where
  "json_item d k =
     (case d of
        JObj kvs \<Rightarrow> (case map_of kvs k of None \<Rightarrow> Inl KeyError | Some v \<Rightarrow> Inr v)
      | _ \<Rightarrow> Inl TypeError)"

definition state_path :: "string \<Rightarrow> string" where
  "state_path base_dir = base_dir @ ''/loop_state.json''"

definition save_state :: "files \<Rightarrow> string \<Rightarrow> run_state \<Rightarrow> string \<Rightarrow> string \<Rightarrow> files" where
  "save_state fs base_dir st reason now =
     fs(state_path base_dir \<mapsto>
        JObj [(''saved_at'', JStr now), (''reason'', JStr reason),
              (''coordinator_state'', state_doc st)])"

text \<open>\<open>load_state\<close> returns the loaded document; \<open>__init__\<close> takes it as the state.\<close>

definition load_state :: "files \<Rightarrow> string \<Rightarrow> py_error + json" where
  "load_state fs state_file = (case fs state_file of None \<Rightarrow> Inl IOError | Some d \<Rightarrow> Inr d)"

text \<open>
  \<open>generate_final_report\<close> also writes the state file, without a wrapper:
  \<open>json.dump(self.state, f, indent=2, default=str)\<close>.
\<close>

definition final_report_state_dump :: "files \<Rightarrow> string \<Rightarrow> run_state \<Rightarrow> files" where
  "final_report_state_dump fs base_dir st = fs(state_path base_dir \<mapsto> state_doc st)"

text \<open>
  The StateManager of state\_manager.py keeps its state as a dict of its own; it saves it
  under the key \<open>state\<close> and loads it from that key.
\<close>

definition sm_save_state :: "files \<Rightarrow> string \<Rightarrow> json \<Rightarrow> string \<Rightarrow> string \<Rightarrow> files" where
  "sm_save_state fs state_file state reason now =
     fs(state_file \<mapsto> JObj [(''saved_at'', JStr now), (''reason'', JStr reason), (''state'', state)])"

definition sm_load_state :: "files \<Rightarrow> string \<Rightarrow> json \<Rightarrow> py_error + json" where
  "sm_load_state fs state_file state =
     (case fs state_file of
        None \<Rightarrow> Inr state
      | Some (JObj kvs) \<Rightarrow> Inr (dict_get kvs ''state'' (JObj []))
      | Some _ \<Rightarrow> Inl AttributeError)"

section \<open>Metric comparison (compare_metrics.py)\<close>

text \<open>One result dict of \<open>compare_metric\<close>.\<close>

record comparison =
  c_metric :: string
  c_baseline :: int
  c_current :: int
  c_change :: int
  c_percent_change :: rat
  c_improved :: bool

definition compare_metric :: "metrics \<Rightarrow> metrics \<Rightarrow> string \<Rightarrow> py_error + comparison" where
  "compare_metric baseline current metric_name =
     (let baseline_val = dict_get baseline metric_name 0;
          current_val = dict_get current metric_name 0;
          change = current_val - baseline_val in
      bind_err
        (if baseline_val = 0 then Inr (if current_val > 0 then 100 else 0)
         else bind_err (true_div (of_int change) baseline_val) (\<lambda>q. Inr (q * 100)))
        (\<lambda>percent_change.
      Inr \<lparr> c_metric = metric_name, c_baseline = baseline_val, c_current = current_val,
            c_change = change, c_percent_change = py_round2 percent_change,
            c_improved = (current_val < baseline_val) \<rparr>))"

definition metrics_to_compare :: "string list" where
  "metrics_to_compare =
     [''total_search_ops'', ''titles_found'', ''title_failures'', ''model_errors'', ''url_errors'']"

fun compare_all :: "metrics \<Rightarrow> metrics \<Rightarrow> string list \<Rightarrow> py_error + comparison list" where
  "compare_all baseline current [] = Inr []"
| "compare_all baseline current (m # ms) =
     bind_err (compare_metric baseline current m) (\<lambda>r.
     bind_err (compare_all baseline current ms) (\<lambda>rs. Inr (r # rs)))"

definition generate_comparison_report :: "metrics \<Rightarrow> metrics \<Rightarrow> py_error + comparison list" where
  "generate_comparison_report baseline current = compare_all baseline current metrics_to_compare"

text \<open>The result dict of \<open>calculate_overall_improvement\<close>; its values are numbers.\<close>

definition calculate_overall_improvement :: "metrics \<Rightarrow> metrics \<Rightarrow> py_error + rat dict" where
  "calculate_overall_improvement baseline current =
     (let b_errors = error_sum baseline; c_errors = error_sum current;
          b_searches = dict_get baseline ''total_search_ops'' 1;
          c_searches = dict_get current ''total_search_ops'' 1 in
      bind_err (error_reduction_pct b_errors c_errors) (\<lambda>reduction.
      bind_err (success_rate_pct b_searches b_errors) (\<lambda>b_success.
      bind_err (success_rate_pct c_searches c_errors) (\<lambda>c_success.
      Inr [(''baseline_errors'', of_int b_errors),
           (''current_errors'', of_int c_errors),
           (''error_reduction'', py_round2 reduction),
           (''baseline_success_rate'', py_round2 b_success),
           (''current_success_rate'', py_round2 c_success),
           (''success_rate_improvement'', py_round2 (c_success - b_success))]))))"

section \<open>Success evaluator (compare_metrics.py)\<close>

record evaluator =
  comparison_results :: "comparison list"
  overall_improvement :: "rat dict"

fun baseline_scan :: "comparison list \<Rightarrow> string \<Rightarrow> int" where
  "baseline_scan [] metric_name = 0"
| "baseline_scan (r # rs) metric_name =
     (if c_metric r = metric_name then c_baseline r else baseline_scan rs metric_name)"

fun current_scan :: "comparison list \<Rightarrow> string \<Rightarrow> int" where
  "current_scan [] metric_name = 0"
| "current_scan (r # rs) metric_name =
     (if c_metric r = metric_name then c_current r else current_scan rs metric_name)"

definition baseline_value :: "evaluator \<Rightarrow> string \<Rightarrow> int" where
  "baseline_value ev metric_name = baseline_scan (comparison_results ev) metric_name"

definition current_value :: "evaluator \<Rightarrow> string \<Rightarrow> int" where
  "current_value ev metric_name = current_scan (comparison_results ev) metric_name"

definition check_error_reduction :: "evaluator \<Rightarrow> rat \<Rightarrow> bool" where
  "check_error_reduction ev threshold =
     (dict_get (overall_improvement ev) ''error_reduction'' 0 \<ge> threshold)"

text \<open>The loop of \<open>check_no_new_errors\<close> over its list of metrics.\<close>

fun no_new_errors_loop :: "evaluator \<Rightarrow> string list \<Rightarrow> bool" where
  "no_new_errors_loop ev [] = True"
| "no_new_errors_loop ev (m # ms) =
     (if baseline_value ev m = 0 \<and> current_value ev m > 0 then False
      else no_new_errors_loop ev ms)"

definition check_no_new_errors :: "evaluator \<Rightarrow> bool" where
  "check_no_new_errors ev = no_new_errors_loop ev [''model_errors'']"

definition check_url_errors_reduced :: "evaluator \<Rightarrow> bool" where
  "check_url_errors_reduced ev = (current_value ev ''url_errors'' \<le> baseline_value ev ''url_errors'')"

definition check_title_failures_reduced :: "evaluator \<Rightarrow> bool" where
  "check_title_failures_reduced ev =
     (current_value ev ''title_failures'' \<le> baseline_value ev ''title_failures'')"

definition check_error_increase :: "evaluator \<Rightarrow> bool" where
  "check_error_increase ev = (dict_get (overall_improvement ev) ''error_reduction'' 0 < - 10)"

text \<open>The loop of \<open>check_new_critical_errors\<close> over its list of metrics.\<close>

fun critical_errors_loop :: "evaluator \<Rightarrow> string list \<Rightarrow> bool" where
  "critical_errors_loop ev [] = False"
| "critical_errors_loop ev (m # ms) =
     (if baseline_value ev m > 0 \<and> current_value ev m > baseline_value ev m * 2 then True
      else critical_errors_loop ev ms)"

definition check_new_critical_errors :: "evaluator \<Rightarrow> bool" where
  "check_new_critical_errors ev =
     critical_errors_loop ev [''url_errors'', ''model_errors'', ''title_failures'']"

text \<open>
  The indicator dicts of \<open>evaluate_fix\<close> hold bound methods under \<open>check\<close>. Calling a
  bound method with a number of positional arguments other than the one its \<open>def\<close>
  declares (besides \<open>self\<close>) raises TypeError: \<open>check_error_reduction\<close> declares
  \<open>threshold\<close>, the other five declare none.
\<close>

datatype check =
    Check_error_reduction
  | Check_no_new_errors
  | Check_url_errors_reduced
  | Check_title_failures_reduced
  | Check_error_increase
  | Check_new_critical_errors

fun call_check :: "evaluator \<Rightarrow> check \<Rightarrow> rat list \<Rightarrow> py_error + bool" where
  "call_check ev Check_error_reduction [threshold] = Inr (check_error_reduction ev threshold)"
| "call_check ev Check_no_new_errors [] = Inr (check_no_new_errors ev)"
| "call_check ev Check_url_errors_reduced [] = Inr (check_url_errors_reduced ev)"
| "call_check ev Check_title_failures_reduced [] = Inr (check_title_failures_reduced ev)"
| "call_check ev Check_error_increase [] = Inr (check_error_increase ev)"
| "call_check ev Check_new_critical_errors [] = Inr (check_new_critical_errors ev)"
| "call_check ev _ _ = Inl TypeError"

record indicator =
  ind_name :: string
  ind_check :: check
  ind_threshold :: "rat option"

definition success_indicators :: "indicator list" where
  "success_indicators =
     [\<lparr> ind_name = ''Error reduction >= 10%'', ind_check = Check_error_reduction,
        ind_threshold = Some 10 \<rparr>,
      \<lparr> ind_name = ''No new error types introduced'', ind_check = Check_no_new_errors,
        ind_threshold = None \<rparr>,
      \<lparr> ind_name = ''URL errors reduced (if applicable)'', ind_check = Check_url_errors_reduced,
        ind_threshold = None \<rparr>,
      \<lparr> ind_name = ''Title failures reduced (if applicable)'',
        ind_check = Check_title_failures_reduced, ind_threshold = None \<rparr>]"

definition failure_indicators :: "indicator list" where
  "failure_indicators =
     [\<lparr> ind_name = ''Error rate increased significantly (>10%)'',
        ind_check = Check_error_increase, ind_threshold = None \<rparr>,
      \<lparr> ind_name = ''New critical errors introduced'', ind_check = Check_new_critical_errors,
        ind_threshold = None \<rparr>]"

text \<open>
  The first loop of \<open>evaluate_fix\<close>:
  \<open>met = indicator['check'](indicator.get('threshold', 0))\<close> for each success indicator.
\<close>

fun count_success :: "evaluator \<Rightarrow> indicator list \<Rightarrow> nat \<Rightarrow> py_error + nat" where
  "count_success ev [] success_count = Inr success_count"
| "count_success ev (i # rest) success_count =
     bind_err
       (call_check ev (ind_check i) [case ind_threshold i of None \<Rightarrow> 0 | Some t \<Rightarrow> t])
       (\<lambda>met. count_success ev rest (if met then success_count + 1 else success_count))"

text \<open>The second loop: \<open>detected = indicator['check']()\<close> for each failure indicator.\<close>

fun detect_failure :: "evaluator \<Rightarrow> indicator list \<Rightarrow> bool \<Rightarrow> py_error + bool" where
  "detect_failure ev [] failure_detected = Inr failure_detected"
| "detect_failure ev (i # rest) failure_detected =
     bind_err (call_check ev (ind_check i) [])
       (\<lambda>detected. detect_failure ev rest (if detected then True else failure_detected))"

record evaluation =
  e_fix_name :: string
  e_success_rate :: rat
  e_success_count :: nat
  e_total_indicators :: nat
  e_failure_detected :: bool
  e_decision :: string
  e_reason :: string

text \<open>
  The end of \<open>evaluate_fix\<close>, from the results of its two loops: the success rate, the
  decision and the result dict.
\<close>

definition assess :: "string \<Rightarrow> nat \<Rightarrow> nat \<Rightarrow> bool \<Rightarrow> py_error + evaluation" where
  "assess name success_count total_indicators failure_detected =
     bind_err
       (if total_indicators > 0 then
          bind_err (true_div (of_nat success_count) (int total_indicators)) (\<lambda>q. Inr (q * 100))
        else Inr 0)
       (\<lambda>success_rate.
     let (decision, reason) =
           (if failure_detected then (''ROLLBACK'', ''Critical failure indicators detected'')
            else if success_rate \<ge> 75 then (''KEEP'', ''Met >=75% of success criteria'')
            else if success_rate \<ge> 50 then
              (''MONITOR'', ''Partial success - need more time or tweaking'')
            else (''ROLLBACK'', ''Failed to meet minimum success criteria (<50%)'')) in
     Inr \<lparr> e_fix_name = name, e_success_rate = py_round2 success_rate,
           e_success_count = success_count, e_total_indicators = total_indicators,
           e_failure_detected = failure_detected, e_decision = decision,
           e_reason = reason \<rparr>)"

definition evaluate_fix :: "evaluator \<Rightarrow> string \<Rightarrow> py_error + evaluation" where
  "evaluate_fix ev name =
     bind_err (count_success ev success_indicators 0) (\<lambda>success_count.
     let total_indicators = length success_indicators in
     bind_err (detect_failure ev failure_indicators False) (\<lambda>failure_detected.
     assess name success_count total_indicators failure_detected))"

text \<open>
  \<open>main\<close> of compare\_metrics.py: the comparison of two parsed reports, the overall
  improvement, and the evaluator built from both.
\<close>

definition make_evaluator :: "metrics \<Rightarrow> metrics \<Rightarrow> py_error + evaluator" where
  "make_evaluator baseline current =
     bind_err (generate_comparison_report baseline current) (\<lambda>results.
     bind_err (calculate_overall_improvement baseline current) (\<lambda>overall.
     Inr \<lparr> comparison_results = results, overall_improvement = overall \<rparr>))"

definition evaluate_reports :: "metrics \<Rightarrow> metrics \<Rightarrow> string \<Rightarrow> py_error + evaluation" where
  "evaluate_reports baseline current name =
     bind_err (make_evaluator baseline current) (\<lambda>ev. evaluate_fix ev name)"

section \<open>Example inputs\<close>

text \<open>
  A metrics dict with all five counters, as \<open>parse_aggregation_report\<close> and
  \<open>parse_report\<close> return it: search operations, title failures, URL errors, model errors.
\<close>

definition snapshot :: "int \<Rightarrow> int \<Rightarrow> int \<Rightarrow> int \<Rightarrow> metrics" where
  "snapshot searches titles urls models =
     [(''total_search_ops'', searches), (''titles_found'', searches - titles),
      (''title_failures'', titles), (''model_errors'', models), (''url_errors'', urls)]"

definition history_record :: "int \<Rightarrow> string \<Rightarrow> metrics \<Rightarrow> iteration_record" where
  "history_record i ph m =
     \<lparr> r_iteration = i, r_phase = ph, r_timestamp = ''2024-01-01T00:00:00'',
       r_results = JObj [(''status'', JStr ''success'')], r_metrics_snapshot = Some m \<rparr>"

definition state_with :: "int \<Rightarrow> iteration_record list \<Rightarrow> run_state" where
  "state_with i h =
     (initial_state ''2024-01-01T00:00:00'')\<lparr> iteration := i, iteration_history := h \<rparr>"

text \<open>Errors 50, then 48 at the next aggregation: a reduction of 4 percent.\<close>

definition plateau_state :: run_state where
  "plateau_state =
     state_with 2 [history_record 1 ''aggregation'' (snapshot 100 50 0 0),
                   history_record 1 ''diagnostics'' (snapshot 100 50 0 0),
                   history_record 2 ''aggregation'' (snapshot 100 48 0 0)]"



text \<open>Errors 100 at the first aggregation, 5 at the latest: a reduction of 95 percent.\<close>

definition budget_spent_state :: run_state where
  "budget_spent_state =
     state_with 10 [history_record 1 ''aggregation'' (snapshot 100 50 30 20),
                    history_record 1 ''diagnostics'' (snapshot 100 50 30 20),
                    history_record 10 ''aggregation'' (snapshot 100 5 0 0)]"

definition early_success_state :: run_state where
  "early_success_state =
     state_with 2 [history_record 1 ''aggregation'' (snapshot 100 50 30 20),
                   history_record 1 ''diagnostics'' (snapshot 100 50 30 20),
                   history_record 2 ''aggregation'' (snapshot 100 5 0 0)]"

text \<open>Errors 10 at the first aggregation, 30 at the latest.\<close>

definition regressed_state :: run_state where
  "regressed_state =
     state_with 2 [history_record 1 ''aggregation'' (snapshot 100 10 0 0),
                   history_record 1 ''diagnostics'' (snapshot 100 10 0 0),
                   history_record 2 ''aggregation'' (snapshot 100 30 0 0)]"

text \<open>The fixes of the placeholder diagnostic report, the second one at a lower priority.\<close>

definition header_fix :: fix_candidate where
  "header_fix =
     \<lparr> fix_name = ''Enhanced Headers for IAFD'', fix_priority = ''HIGH'',
       fix_expected_improvement = ''20-30% error reduction'' \<rparr>"

definition selector_fix :: fix_candidate where
  "selector_fix =
     \<lparr> fix_name = ''Update XPath Selectors'', fix_priority = ''MEDIUM'',
       fix_expected_improvement = ''15-25% error reduction'' \<rparr>"

text \<open>
  The only high-priority fix of the report has been attempted, and the iteration budget
  is not spent.
\<close>

definition all_attempted_state :: run_state where
  "all_attempted_state =
     (state_with 2 [history_record 1 ''aggregation'' (snapshot 100 50 20 10),
                    history_record 1 ''diagnostics'' (snapshot 100 50 20 10),
                    history_record 2 ''aggregation'' (snapshot 100 40 20 10),
                    history_record 2 ''diagnostics'' (snapshot 100 40 20 10)])
       \<lparr> fixes_attempted := [''Enhanced Headers for IAFD''],
         fixes_successful := [''Enhanced Headers for IAFD''] \<rparr>"

definition zero_state :: run_state where
  "zero_state =
     state_with 2 [history_record 1 ''aggregation'' (snapshot 100 0 0 0),
                   history_record 2 ''aggregation'' (snapshot 100 3 2 0)]"

definition fresh_state :: run_state where
  "fresh_state = initial_state ''2024-01-01T00:00:00''"

text \<open>
  A pass whose implementation script fails, and a pass whose scripts all succeed and
  whose test report says \<open>KEEP\<close>.
\<close>

definition kept_env :: test_env where
  "kept_env =
     \<lparr> test_script = ScriptRan 0, agg_script = ScriptRan 0, compare_script = ScriptRan 0,
       report_decision = ''KEEP'' \<rparr>"

definition failing_pass :: "fix_candidate list \<times> script_outcome \<times> test_env" where
  "failing_pass = ([header_fix, selector_fix], ScriptRan 1, kept_env)"

definition kept_pass :: "fix_candidate list \<times> script_outcome \<times> test_env" where
  "kept_pass = ([header_fix, selector_fix], ScriptRan 0, kept_env)"

text \<open>
  The bookkeeping property of the three fix lists: no fix is both successful and failed,
  and every successful or failed fix is an attempted one.
\<close>

definition fix_invariant :: "run_state \<Rightarrow> bool" where
  "fix_invariant st \<longleftrightarrow>
     set (fixes_successful st) \<inter> set (fixes_failed st) = {}
     \<and> set (fixes_successful st) \<subseteq> set (fixes_attempted st)
     \<and> set (fixes_failed st) \<subseteq> set (fixes_attempted st)"

text \<open>
  URL errors appear (0, then 3) while the other counters stay as they were.
\<close>

definition url_errors_appear_baseline :: metrics where
  "url_errors_appear_baseline = snapshot 100 10 0 0"

definition url_errors_appear_current :: metrics where
  "url_errors_appear_current = snapshot 100 10 3 0"

text \<open>
  Title failures 50 to 10, URL errors 20 to 5, model errors 10 unchanged.
\<close>

definition improved_baseline :: metrics where
  "improved_baseline = snapshot 100 50 20 10"

definition improved_current :: metrics where
  "improved_current = snapshot 100 10 5 10"

text \<open>
  Title failures 10 to 12, URL errors 10 to 8, no model errors: the error sum is
  unchanged.
\<close>

definition mixed_baseline :: metrics where
  "mixed_baseline = snapshot 100 10 10 0"

definition mixed_current :: metrics where
  "mixed_current = snapshot 100 12 8 0"

text \<open>
  \<open>main\<close> sets \<open>current_metrics\<close> before it records an aggregation, so the aggregation
  records it writes carry a snapshot. On such a history nothing raises.
\<close>

definition snapshots_present :: "run_state \<Rightarrow> bool" where
  "snapshots_present st =
     list_all (\<lambda>r. r_metrics_snapshot r \<noteq> None) (filter is_aggregation (iteration_history st))"

section \<open>Properties\<close>

subsection \<open>Sequencing and arithmetic helpers\<close>

lemma bind_err_simps [simp]:
  "bind_err (Inl e) f = Inl e"
  "bind_err (Inr v) f = f v"
  by (simp_all add: bind_err_def)

lemma bind_err_Inr_iff:
  "bind_err m f = Inr y \<longleftrightarrow> (\<exists>v. m = Inr v \<and> f v = Inr y)"
  by (cases m) simp_all


lemma py_round2_zero [simp]: "py_round2 0 = 0"
  by (simp add: py_round2_def)

lemma error_reduction_pct_zero [simp]: "error_reduction_pct 0 c = Inr 0"
  by (simp add: error_reduction_pct_def)

lemma success_rate_pct_total: "\<exists>r. success_rate_pct s e = Inr r"
  by (simp add: success_rate_pct_def true_div_def)

lemmas example_defs =
  snapshot_def history_record_def state_with_def initial_state_def is_aggregation_def

lemmas progress_defs =
  calculate_progress_def snapshot_of_def error_sum_def dict_get_def error_reduction_pct_def
  success_rate_pct_def true_div_def py_round2_def Let_def

subsection \<open>Plateau detection\<close>

lemma improvements_of_length:
  "improvements_of xs = Inr imps \<Longrightarrow> length imps \<le> length xs - 1"
proof (induction xs arbitrary: imps rule: improvements_of.induct)
  case (1 previous_r current_r rest)
  then show ?case
    by (auto simp: bind_err_Inr_iff Let_def split: if_splits) fastforce+
qed simp_all

lemma length_last_two: "length (last_two xs) \<le> 2"
  by (simp add: last_two_def)

text \<open>
  The window \<open>agg_results[-2:]\<close> holds at most two records, hence at most one adjacent
  pair, and \<open>detect_plateau\<close> asks for two improvements: it never answers \<open>True\<close>.
\<close>

lemma detect_plateau_never_true: "detect_plateau st \<noteq> Inr True"
proof
  assume h: "detect_plateau st = Inr True"
  let ?agg = "filter is_aggregation (iteration_history st)"
  from h obtain imps where i: "improvements_of (last_two ?agg) = Inr imps" and l: "2 \<le> length imps"
    by (auto simp: detect_plateau_def Let_def bind_err_Inr_iff split: if_splits)
  from improvements_of_length [OF i] length_last_two [of ?agg] l show False by simp
qed

text \<open>
  C1 (fails on the code). The history has three records, two of them aggregations with
  error sums 50 and 48, a reduction of 4 percent between the last two aggregation
  snapshots; \<open>detect_plateau\<close> returns \<open>False\<close>.
\<close>

theorem detect_plateau_50_48:
  "length (iteration_history plateau_state) = 3
   \<and> map (map_option error_sum \<circ> r_metrics_snapshot)
         (filter is_aggregation (iteration_history plateau_state)) = [Some 50, Some 48]
   \<and> error_reduction_pct 50 48 = Inr 4
   \<and> detect_plateau plateau_state = Inr False"
  by (simp add: plateau_state_def example_defs detect_plateau_def last_two_def progress_defs)

subsection \<open>Progress needs an aggregation record\<close>

lemma agg_scan_filter:
  "agg_scan xs f l =
     (case filter is_aggregation xs of
        [] \<Rightarrow> (f, l)
      | y # ys \<Rightarrow> (case f of None \<Rightarrow> Some y | Some a \<Rightarrow> Some a, Some (last (y # ys))))"
  by (induction xs arbitrary: f l) (auto split: list.splits option.splits)




lemmas exit_defs =
  should_exit_def has_more_fixes_def detect_plateau_def detect_regression_def
  reduction_at_least_def last_two_def

subsection \<open>Exit policy\<close>

text \<open>
  C5. Once the progress has been computed, \<open>should_exit\<close> tests its conditions in the
  order max iterations, no more fixes, plateau, success, regression, and the first that
  holds gives the result. Whatever the progress is (a reduction of 90 percent or more
  included), a spent iteration budget gives \<open>max_iterations_reached\<close>.
\<close>

theorem should_exit_priority:
  assumes "calculate_progress st = Inr prog"
  shows
    "(max_iterations st \<le> iteration st \<longrightarrow>
        should_exit st =
          Inr (st\<lparr>exit_condition := Some ''max_iterations_reached''\<rparr>, True,
               Some ''Maximum iterations reached''))
     \<and> (iteration st < max_iterations st \<and> detect_plateau st = Inr plateau \<longrightarrow>
        should_exit st =
          Inr (if \<not> has_more_fixes st then
                 (st\<lparr>exit_condition := Some ''all_fixes_attempted''\<rparr>, True,
                  Some ''All identified fixes have been attempted'')
               else if plateau then
                 (st\<lparr>exit_condition := Some ''plateau_detected''\<rparr>, True,
                  Some ''Progress has plateaued - no significant improvement in last 2 iterations'')
               else if reduction_at_least prog 90 then
                 (st\<lparr>exit_condition := Some ''success''\<rparr>, True,
                  Some ''Target improvement achieved (90%+ error reduction)'')
               else if detect_regression prog then
                 (st\<lparr>exit_condition := Some ''regression_detected''\<rparr>, True,
                  Some ''System performance has regressed - stopping'')
               else (st, False, None)))"
  using assms by (simp add: should_exit_def)

theorem should_exit_priority_witness:
  "(\<exists>pr. calculate_progress budget_spent_state = Inr (Some pr) \<and> total_error_reduction pr = 95)
   \<and> max_iterations budget_spent_state \<le> iteration budget_spent_state
   \<and> (\<exists>st'. should_exit budget_spent_state = Inr (st', True, Some ''Maximum iterations reached'')
          \<and> exit_condition st' = Some ''max_iterations_reached'')
   \<and> iteration early_success_state < max_iterations early_success_state
   \<and> detect_plateau early_success_state = Inr False
   \<and> (\<exists>st'. should_exit early_success_state =
               Inr (st', True, Some ''Target improvement achieved (90%+ error reduction)'')
          \<and> exit_condition st' = Some ''success'')"
proof -
  have p1: "calculate_progress budget_spent_state =
      Inr (Some \<lparr> total_error_reduction = 95, success_rate_improvement = 95, iterations = 2,
                  p_fixes_successful = 0, p_fixes_failed = 0,
                  baseline_errors = 100, current_errors = 5 \<rparr>)"
    by (simp add: budget_spent_state_def example_defs progress_defs)
  have p2: "calculate_progress early_success_state =
      Inr (Some \<lparr> total_error_reduction = 95, success_rate_improvement = 95, iterations = 2,
                  p_fixes_successful = 0, p_fixes_failed = 0,
                  baseline_errors = 100, current_errors = 5 \<rparr>)"
    by (simp add: early_success_state_def example_defs progress_defs)
  have i1: "max_iterations budget_spent_state \<le> iteration budget_spent_state"
    by (simp add: budget_spent_state_def example_defs)
  have i2: "iteration early_success_state < max_iterations early_success_state"
    by (simp add: early_success_state_def example_defs)
  have d2: "detect_plateau early_success_state = Inr False"
    using detect_plateau_never_true [of early_success_state]
    by (cases "detect_plateau early_success_state")
       (simp_all add: early_success_state_def example_defs detect_plateau_def last_two_def progress_defs)
  from should_exit_priority [OF p1, of False] i1
  have e1: "should_exit budget_spent_state =
          Inr (budget_spent_state\<lparr>exit_condition := Some ''max_iterations_reached''\<rparr>, True,
               Some ''Maximum iterations reached'')"
    by simp
  from should_exit_priority [OF p2, of False] i2 d2
  have e2: "should_exit early_success_state =
          Inr (early_success_state\<lparr>exit_condition := Some ''success''\<rparr>, True,
               Some ''Target improvement achieved (90%+ error reduction)'')"
    by (simp add: has_more_fixes_def reduction_at_least_def)
  show ?thesis
    using p1 i1 e1 i2 d2 e2 by simp
qed

text \<open>
  C6 (as stated, refuted). No high-priority fix of the report is pending and the
  iteration budget is not spent, yet \<open>should_exit\<close> does not end the loop.
\<close>

theorem should_exit_all_attempted_continues:
  "pending_fixes all_attempted_state [header_fix, selector_fix] = []
   \<and> iteration all_attempted_state < max_iterations all_attempted_state
   \<and> should_exit all_attempted_state = Inr (all_attempted_state, False, None)"
  by (simp add: all_attempted_state_def header_fix_def selector_fix_def pending_fixes_def
        example_defs exit_defs progress_defs)

text \<open>
  C6 (amended). \<open>has_more_fixes\<close> compares the iteration counter with the budget and
  nothing else. When the budget is not spent it is true, whatever fixes are pending, and
  \<open>should_exit\<close> never ends the loop with \<open>all_fixes_attempted\<close>: it ends it on a
  plateau, on success or on a regression, or not at all.
\<close>

theorem all_fixes_attempted_unreachable:
  assumes "iteration st < max_iterations st"
      and "should_exit st = Inr (st', ex, msg)"
  shows "has_more_fixes st
     \<and> msg \<noteq> Some ''All identified fixes have been attempted''
     \<and> (if ex then exit_condition st' \<in>
                    {Some ''plateau_detected'', Some ''success'', Some ''regression_detected''}
         else st' = st \<and> msg = None)"
  using assms
  by (auto simp: should_exit_def has_more_fixes_def bind_err_Inr_iff split: if_splits)

theorem all_fixes_attempted_unreachable_witness:
  "iteration regressed_state < max_iterations regressed_state
   \<and> should_exit regressed_state =
       Inr (regressed_state\<lparr>exit_condition := Some ''regression_detected''\<rparr>, True,
            Some ''System performance has regressed - stopping'')
   \<and> has_more_fixes regressed_state"
proof -
  have i: "iteration regressed_state < max_iterations regressed_state"
    by (simp add: regressed_state_def example_defs)
  have e: "should_exit regressed_state =
       Inr (regressed_state\<lparr>exit_condition := Some ''regression_detected''\<rparr>, True,
            Some ''System performance has regressed - stopping'')"
    by (simp add: regressed_state_def example_defs exit_defs progress_defs)
  from all_fixes_attempted_unreachable [OF i e] i e show ?thesis by simp
qed

subsection \<open>Zero baseline\<close>

text \<open>
  C9. When the error counters of the baseline snapshot sum to 0, the three computations
  return (no exception) and report an error reduction of exactly 0, whatever the current
  snapshot is.
\<close>

theorem zero_baseline_error_reduction:
  assumes "error_sum baseline = 0"
  shows "(\<exists>r. calculate_improvement baseline current = Inr r \<and> error_reduction r = 0)
     \<and> (\<exists>d. calculate_overall_improvement baseline current = Inr d
            \<and> map_of d ''error_reduction'' = Some 0)
     \<and> (\<forall>st first_agg latest_agg.
            2 \<le> length (iteration_history st)
            \<and> agg_scan (iteration_history st) None None = (Some first_agg, Some latest_agg)
            \<and> r_metrics_snapshot first_agg = Some baseline
            \<and> r_metrics_snapshot latest_agg = Some current
            \<longrightarrow> (\<exists>p. calculate_progress st = Inr (Some p) \<and> total_error_reduction p = 0))"
proof -
  obtain b where b: "success_rate_pct (dict_get baseline ''total_search_ops'' 1) 0 = Inr b"
    using success_rate_pct_total by blast
  obtain c where c: "success_rate_pct (dict_get current ''total_search_ops'' 1) (error_sum current) = Inr c"
    using success_rate_pct_total by blast
  have 1: "\<exists>r. calculate_improvement baseline current = Inr r \<and> error_reduction r = 0"
    using assms b c by (simp add: calculate_improvement_def Let_def)
  have 2: "\<exists>d. calculate_overall_improvement baseline current = Inr d
            \<and> map_of d ''error_reduction'' = Some 0"
    using assms b c by (simp add: calculate_overall_improvement_def Let_def)
  have 3: "\<exists>p. calculate_progress st = Inr (Some p) \<and> total_error_reduction p = 0"
    if "2 \<le> length (iteration_history st)"
      and "agg_scan (iteration_history st) None None = (Some first_agg, Some latest_agg)"
      and "r_metrics_snapshot first_agg = Some baseline"
      and "r_metrics_snapshot latest_agg = Some current"
    for st first_agg latest_agg
    using that assms b c by (simp add: calculate_progress_def snapshot_of_def Let_def)
  from 1 2 3 show ?thesis by blast
qed

theorem zero_baseline_error_reduction_witness:
  "error_sum (snapshot 100 0 0 0) = 0
   \<and> (\<exists>r. calculate_improvement (snapshot 100 0 0 0) (snapshot 100 3 2 0) = Inr r
          \<and> error_reduction r = 0)
   \<and> (\<exists>d. calculate_overall_improvement (snapshot 100 0 0 0) (snapshot 100 3 2 0) = Inr d
          \<and> map_of d ''error_reduction'' = Some 0)
   \<and> (\<exists>p. calculate_progress zero_state = Inr (Some p) \<and> total_error_reduction p = 0)"
proof -
  have z: "error_sum (snapshot 100 0 0 0) = 0"
    by (simp add: snapshot_def error_sum_def dict_get_def)
  have s: "2 \<le> length (iteration_history zero_state)
     \<and> agg_scan (iteration_history zero_state) None None =
         (Some (history_record 1 ''aggregation'' (snapshot 100 0 0 0)),
          Some (history_record 2 ''aggregation'' (snapshot 100 3 2 0)))
     \<and> r_metrics_snapshot (history_record 1 ''aggregation'' (snapshot 100 0 0 0)) =
         Some (snapshot 100 0 0 0)
     \<and> r_metrics_snapshot (history_record 2 ''aggregation'' (snapshot 100 3 2 0)) =
         Some (snapshot 100 3 2 0)"
    by (simp add: zero_state_def state_with_def initial_state_def history_record_def
          is_aggregation_def)
  from zero_baseline_error_reduction [OF z, of "snapshot 100 3 2 0"] s z
  show ?thesis by blast
qed

subsection \<open>Saving and loading\<close>

lemma load_after_save:
  "load_state (save_state fs base_dir st reason now) (state_path base_dir) =
     Inr (JObj [(''saved_at'', JStr now), (''reason'', JStr reason),
                (''coordinator_state'', state_doc st)])"
  by (simp add: load_state_def save_state_def)

text \<open>No state document is its own wrapper, so the round trip fails for every state.\<close>

lemma load_after_save_differs:
  "load_state (save_state fs base_dir st reason now) (state_path base_dir) \<noteq> Inr (state_doc st)"
  by (simp add: load_after_save state_doc_def)

text \<open>The file written by \<open>generate_final_report\<close> does load as the state.\<close>

lemma load_after_final_report:
  "load_state (final_report_state_dump fs base_dir st) (state_path base_dir) = Inr (state_doc st)"
  by (simp add: load_state_def final_report_state_dump_def)

text \<open>The StateManager reads back the state it saved.\<close>

lemma sm_load_after_save:
  "sm_load_state (sm_save_state fs state_file state reason now) state_file old = Inr state"
  by (simp add: sm_load_state_def sm_save_state_def dict_get_def)

text \<open>
  C2 (fails on the code). The fresh state is saved by \<open>save_state\<close> and the file is
  loaded by \<open>load_state\<close>: the loaded document is the wrapper, not the state, and
  reading \<open>state['iteration']\<close> from it raises KeyError.
\<close>

theorem save_load_fresh_state:
  "load_state (save_state Map.empty ''/plex'' fresh_state ''checkpoint'' ''2024-01-02T00:00:00'')
       (state_path ''/plex'') =
     Inr (JObj [(''saved_at'', JStr ''2024-01-02T00:00:00''), (''reason'', JStr ''checkpoint''),
                (''coordinator_state'', state_doc fresh_state)])
   \<and> json_item (state_doc fresh_state) ''iteration'' = Inr (JInt 0)
   \<and> bind_err (load_state
          (save_state Map.empty ''/plex'' fresh_state ''checkpoint'' ''2024-01-02T00:00:00'')
          (state_path ''/plex'')) (\<lambda>loaded. json_item loaded ''iteration'') = Inl KeyError"
  by (simp add: load_after_save json_item_def state_doc_def fresh_state_def initial_state_def)

subsection \<open>Fix bookkeeping\<close>

lemma fix_invariant_initial: "fix_invariant (initial_state now)"
  by (simp add: fix_invariant_def initial_state_def)

lemma pending_head_unattempted:
  "pending_fixes st fixes = f # rest \<Longrightarrow> fix_name f \<notin> set (fixes_attempted st)"
proof -
  assume "pending_fixes st fixes = f # rest"
  then have "f \<in> set (pending_fixes st fixes)" by simp
  then show ?thesis by (simp add: pending_fixes_def)
qed

text \<open>
  A pass whose implementation script does not fail keeps the invariant: the failed
  implementation is the only way out of it.
\<close>

lemma fix_invariant_pass:
  assumes "fix_invariant st" and "\<not> script_failed impl_script"
  shows "fix_invariant (implement_and_test st (fixes, impl_script, env))"
proof (cases "pending_fixes st fixes")
  case Nil
  with assms show ?thesis
    by (simp add: implement_and_test_def execute_implementation_def)
next
  case (Cons f rest)
  from pending_head_unattempted [OF Cons] assms(1)
  have new: "fix_name f \<notin> set (fixes_attempted st)"
    "fix_name f \<notin> set (fixes_successful st)" "fix_name f \<notin> set (fixes_failed st)"
    by (auto simp: fix_invariant_def)
  with assms Cons show ?thesis
    by (auto simp: implement_and_test_def execute_implementation_def execute_testing_def
          fix_invariant_def Let_def)
qed

text \<open>
  C3 (fails on the code). One pass whose implementation script fails leaves the fix in
  \<open>fixes_failed\<close> and not in \<open>fixes_attempted\<close>; the fix is still pending, and a
  second pass that implements and keeps it puts it into \<open>fixes_successful\<close> as well.
\<close>

theorem failed_implementation_breaks_bookkeeping:
  "fixes_failed (run_cycles fresh_state [failing_pass]) = [''Enhanced Headers for IAFD'']
   \<and> fixes_attempted (run_cycles fresh_state [failing_pass]) = []
   \<and> fixes_failed (run_cycles fresh_state [failing_pass, kept_pass]) = [''Enhanced Headers for IAFD'']
   \<and> fixes_successful (run_cycles fresh_state [failing_pass, kept_pass]) =
       [''Enhanced Headers for IAFD'']
   \<and> \<not> fix_invariant (run_cycles fresh_state [failing_pass])
   \<and> \<not> fix_invariant (run_cycles fresh_state [failing_pass, kept_pass])"
  by (simp add: run_cycles_def implement_and_test_def execute_implementation_def
        execute_testing_def pending_fixes_def script_failed_def failing_pass_def kept_pass_def
        kept_env_def header_fix_def selector_fix_def fresh_state_def initial_state_def
        fix_invariant_def)

subsection \<open>Success evaluator\<close>

lemmas compare_defs =
  make_evaluator_def generate_comparison_report_def metrics_to_compare_def compare_metric_def
  calculate_overall_improvement_def snapshot_def error_sum_def dict_get_def
  error_reduction_pct_def success_rate_pct_def true_div_def py_round2_def Let_def

lemmas check_defs =
  check_error_reduction_def check_no_new_errors_def check_url_errors_reduced_def
  check_title_failures_reduced_def check_error_increase_def check_new_critical_errors_def
  baseline_value_def current_value_def

text \<open>
  C7 (fails on the code). URL errors were 0 in the baseline and are 3 in the current
  snapshot; \<open>check_no_new_errors\<close>, which looks at \<open>model_errors\<close> only, is satisfied.
\<close>

theorem check_no_new_errors_url_errors:
  "bind_err (make_evaluator url_errors_appear_baseline url_errors_appear_current)
     (\<lambda>ev. Inr (baseline_value ev ''url_errors'', current_value ev ''url_errors'',
                check_no_new_errors ev)) = Inr (0, 3, True)"
  by (simp add: url_errors_appear_baseline_def url_errors_appear_current_def compare_defs
        check_defs)

text \<open>
  The second success indicator holds \<open>check_no_new_errors\<close>, which declares no
  parameter, and the loop calls every check with one argument: \<open>evaluate_fix\<close> raises
  TypeError on every input.
\<close>

lemma count_success_raises: "count_success ev success_indicators 0 = Inl TypeError"
  by (simp add: success_indicators_def)

lemma evaluate_fix_raises: "evaluate_fix ev name = Inl TypeError"
  by (simp add: evaluate_fix_def count_success_raises)

text \<open>
  What the end of \<open>evaluate_fix\<close> computes from a count of met success checks out of
  four: the rate is a multiple of 25, and the decision follows the failure flag first, then
  the thresholds 75 and 50.
\<close>

lemma assess_four:
  assumes "success_count \<le> 4"
  shows "\<exists>e. assess name success_count 4 failure_detected = Inr e
     \<and> e_success_rate e = of_nat success_count * 25
     \<and> e_decision e =
         (if failure_detected then ''ROLLBACK''
          else if 3 \<le> success_count then ''KEEP''
          else if success_count = 2 then ''MONITOR''
          else ''ROLLBACK'')"
proof -
  from assms consider "success_count = 0" | "success_count = 1" | "success_count = 2"
    | "success_count = 3" | "success_count = 4"
    by linarith
  then show ?thesis
    by cases (simp_all add: assess_def true_div_def py_round2_def)
qed

text \<open>
  C8 (fails on the code). On the reports with errors 80, then 25, all four success
  checks hold and no failure check fires, so the decision rule gives KEEP;
  \<open>evaluate_fix\<close> raises TypeError instead of returning a decision.
\<close>

theorem evaluate_fix_improved_reports:
  "bind_err (make_evaluator improved_baseline improved_current)
     (\<lambda>ev. Inr (dict_get (overall_improvement ev) ''error_reduction'' 0,
                [check_error_reduction ev 10, check_no_new_errors ev,
                 check_url_errors_reduced ev, check_title_failures_reduced ev],
                [check_error_increase ev, check_new_critical_errors ev])) =
     Inr (275 / 4, [True, True, True, True], [False, False])
   \<and> bind_err (assess ''Enhanced Headers for IAFD'' 4 4 False) (\<lambda>e. Inr (e_decision e)) =
       Inr ''KEEP''
   \<and> evaluate_reports improved_baseline improved_current ''Enhanced Headers for IAFD'' =
       Inl TypeError"
  by (simp add: improved_baseline_def improved_current_def compare_defs check_defs
        evaluate_reports_def evaluate_fix_def success_indicators_def assess_def)

text \<open>
  C10 (fails on the code). Two of the four success checks hold and no failure check
  fires; \<open>evaluate_fix\<close> returns neither a success rate nor the MONITOR decision: it
  raises TypeError.
\<close>

theorem evaluate_fix_mixed_reports:
  "bind_err (make_evaluator mixed_baseline mixed_current)
     (\<lambda>ev. Inr ([check_error_reduction ev 10, check_no_new_errors ev,
                 check_url_errors_reduced ev, check_title_failures_reduced ev],
                [check_error_increase ev, check_new_critical_errors ev])) =
     Inr ([False, True, True, False], [False, False])
   \<and> bind_err (assess ''Update XPath Selectors'' 2 4 False)
         (\<lambda>e. Inr (e_success_rate e, e_decision e)) = Inr (50, ''MONITOR'')
   \<and> evaluate_reports mixed_baseline mixed_current ''Update XPath Selectors'' = Inl TypeError"
  by (simp add: mixed_baseline_def mixed_current_def compare_defs check_defs
        evaluate_reports_def evaluate_fix_def success_indicators_def assess_def)

subsection \<open>Histories whose aggregation records carry a snapshot\<close>

lemma error_reduction_pct_total: "\<exists>r. error_reduction_pct b c = Inr r"
  by (simp add: error_reduction_pct_def true_div_def)

lemma snapshot_of_present: "r_metrics_snapshot r \<noteq> None \<Longrightarrow> \<exists>m. snapshot_of r = Inr m"
  by (auto simp: snapshot_of_def)

lemma calculate_progress_total:
  assumes "snapshots_present st"
  shows "\<exists>prog. calculate_progress st = Inr prog"
proof (cases "filter is_aggregation (iteration_history st)")
  case Nil
  then show ?thesis by (simp add: calculate_progress_def agg_scan_filter)
next
  case (Cons y ys)
  with assms have "r_metrics_snapshot y \<noteq> None" "r_metrics_snapshot (last (y # ys)) \<noteq> None"
    by (auto simp: snapshots_present_def list_all_iff)
  then obtain b c where bc: "snapshot_of y = Inr b" "snapshot_of (last (y # ys)) = Inr c"
    using snapshot_of_present by blast
  obtain e where e: "error_reduction_pct (error_sum b) (error_sum c) = Inr e"
    using error_reduction_pct_total by blast
  obtain rb where rb: "success_rate_pct (dict_get b ''total_search_ops'' 1) (error_sum b) = Inr rb"
    using success_rate_pct_total by blast
  obtain rc where rc: "success_rate_pct (dict_get c ''total_search_ops'' 1) (error_sum c) = Inr rc"
    using success_rate_pct_total by blast
  from Cons bc e rb rc show ?thesis
    by (simp add: calculate_progress_def agg_scan_filter Let_def)
qed

lemma improvements_of_total_Cons:
  "list_all (\<lambda>r. r_metrics_snapshot r \<noteq> None) (x # xs)
     \<Longrightarrow> \<exists>imps. improvements_of (x # xs) = Inr imps"
proof (induction xs arbitrary: x)
  case Nil
  then show ?case by simp
next
  case (Cons y ys)
  from Cons.prems have "list_all (\<lambda>r. r_metrics_snapshot r \<noteq> None) (y # ys)"
    by simp
  from Cons.IH [OF this] obtain imps where imps: "improvements_of (y # ys) = Inr imps"
    by blast
  from Cons.prems have "r_metrics_snapshot x \<noteq> None" "r_metrics_snapshot y \<noteq> None"
    by simp_all
  then obtain p c where "snapshot_of x = Inr p" "snapshot_of y = Inr c"
    using snapshot_of_present by blast
  with imps show ?case
    by (simp add: Let_def true_div_def)
qed

lemma improvements_of_total:
  "list_all (\<lambda>r. r_metrics_snapshot r \<noteq> None) xs \<Longrightarrow> \<exists>imps. improvements_of xs = Inr imps"
proof (cases xs)
  case Nil
  then show ?thesis by simp
next
  case (Cons x rest)
  assume "list_all (\<lambda>r. r_metrics_snapshot r \<noteq> None) xs"
  with Cons show ?thesis using improvements_of_total_Cons [of x rest] by blast
qed

lemma detect_plateau_False:
  assumes "snapshots_present st"
  shows "detect_plateau st = Inr False"
proof -
  let ?agg = "filter is_aggregation (iteration_history st)"
  from assms have "list_all (\<lambda>r. r_metrics_snapshot r \<noteq> None) (last_two ?agg)"
    by (auto simp: snapshots_present_def last_two_def list_all_iff dest: in_set_dropD)
  then obtain imps where "improvements_of (last_two ?agg) = Inr imps"
    using improvements_of_total by blast
  then have "detect_plateau st = Inr False
      \<or> detect_plateau st = Inr (list_all (\<lambda>imp. imp < 5) imps)"
    by (simp add: detect_plateau_def Let_def)
  with detect_plateau_never_true [of st] show ?thesis
    by (cases "list_all (\<lambda>imp. imp < 5) imps") auto
qed

text \<open>
  On such a history \<open>should_exit\<close> returns, and only three of its five exits can be
  taken: the budget, success and regression.
\<close>

lemma should_exit_outcomes:
  assumes "snapshots_present st"
  shows "\<exists>prog. calculate_progress st = Inr prog
     \<and> should_exit st =
         Inr (if max_iterations st \<le> iteration st then
                (st\<lparr>exit_condition := Some ''max_iterations_reached''\<rparr>, True,
                 Some ''Maximum iterations reached'')
              else if reduction_at_least prog 90 then
                (st\<lparr>exit_condition := Some ''success''\<rparr>, True,
                 Some ''Target improvement achieved (90%+ error reduction)'')
              else if detect_regression prog then
                (st\<lparr>exit_condition := Some ''regression_detected''\<rparr>, True,
                 Some ''System performance has regressed - stopping'')
              else (st, False, None))"
proof -
  from calculate_progress_total [OF assms] obtain prog where "calculate_progress st = Inr prog"
    by blast
  with detect_plateau_False [OF assms] show ?thesis
    by (simp add: should_exit_def has_more_fixes_def)
qed

end
